theory Spec2Isabelle
  imports Main "HOL-Library.Word" "HOL-Library.Signed_Division"
begin

section \<open>Tokens (tokens.go)\<close>

text \<open>
  The Go source declares \<open>TokenType\<close> as a string with one constant per kind.  The kinds
  are a closed set, so they are a datatype here; \<open>tokenType_string\<close> gives back the
  string each constant stands for (it is what \<open>%v\<close> prints in the parser's messages).
\<close>

datatype token_type =
    ILLEGAL | EOF
  | IDENT | INT_TOK | FLOAT | STRING
  | ASSIGN | PLUS | MINUS | ASTERIX | SLASH | MODULO
  | BANG | EQ | NOTEQ | LT | GT | LTEQ | GTEQ
  | COMMA | SEMICOLON | COLON
  | LPAREN | RPAREN | LBRACE | RBRACE | LBRACKET | RBRACKET
  | FUNCTION | LET | IF | ELSE | TRUE | FALSE | RETURN

fun tokenType_string :: "token_type \<Rightarrow> string" where
  "tokenType_string ILLEGAL = ''ILLEGAL''"
| "tokenType_string EOF = ''EOF''"
| "tokenType_string IDENT = ''IDENT''"
| "tokenType_string INT_TOK = ''INT''"
| "tokenType_string FLOAT = ''FLOAT''"
| "tokenType_string STRING = ''STRING''"
| "tokenType_string ASSIGN = ''=''"
| "tokenType_string PLUS = ''+''"
| "tokenType_string MINUS = ''-''"
| "tokenType_string ASTERIX = ''*''"
| "tokenType_string SLASH = ''/''"
| "tokenType_string MODULO = ''%''"
| "tokenType_string BANG = ''!''"
| "tokenType_string EQ = ''==''"
| "tokenType_string NOTEQ = ''!=''"
| "tokenType_string LT = ''<''"
| "tokenType_string GT = ''>''"
| "tokenType_string LTEQ = ''<=''"
| "tokenType_string GTEQ = ''>=''"
| "tokenType_string COMMA = '',''"
| "tokenType_string SEMICOLON = '';''"
| "tokenType_string COLON = '':''"
| "tokenType_string LPAREN = ''(''"
| "tokenType_string RPAREN = '')''"
| "tokenType_string LBRACE = ''{''"
| "tokenType_string RBRACE = ''}''"
| "tokenType_string LBRACKET = ''[''"
| "tokenType_string RBRACKET = '']''"
| "tokenType_string FUNCTION = ''FUNCTION''"
| "tokenType_string LET = ''LET''"
| "tokenType_string IF = ''IF''"
| "tokenType_string ELSE = ''ELSE''"
| "tokenType_string TRUE = ''TRUE''"
| "tokenType_string FALSE = ''FALSE''"
| "tokenType_string RETURN = ''RETURN''"

text \<open>(\<open>INT_TOK\<close> is the constant \<open>INT\<close>, a reserved word of the logic.)\<close>

text \<open>\<open>line\<close> and \<open>column\<close> are Go \<open>int\<close>s that only ever count upwards from 0 or 1.\<close>

record token =
  tokenType :: token_type
  literal :: string
  line :: nat
  column :: nat

definition lookupIdent :: "string \<Rightarrow> token_type" where
  "lookupIdent ident =
     (if ident = ''fn'' then FUNCTION
      else if ident = ''let'' then LET
      else if ident = ''if'' then IF
      else if ident = ''else'' then ELSE
      else if ident = ''true'' then TRUE
      else if ident = ''false'' then FALSE
      else if ident = ''return'' then RETURN
      else IDENT)"

section \<open>Host formatting (\<open>fmt.Sprintf("%v", ...)\<close>, \<open>strings.Join\<close>)\<close>

function string_of_nat :: "nat \<Rightarrow> string" where
  "string_of_nat n =
     (if n < 10 then [''0123456789'' ! n]
      else string_of_nat (n div 10) @ [''0123456789'' ! (n mod 10)])"
  by pat_completeness auto
termination
  by (relation "measure id") auto

declare string_of_nat.simps [simp del]

definition string_of_int :: "int \<Rightarrow> string" where
  "string_of_int i = (if i < 0 then CHR ''-'' # string_of_nat (nat (- i)) else string_of_nat (nat i))"

fun join :: "string list \<Rightarrow> string \<Rightarrow> string" where
  "join [] sep = []"
| "join [x] sep = x"
| "join (x # y # ys) sep = x @ sep @ join (y # ys) sep"

section \<open>The syntax tree (the AST source file)\<close>

text \<open>
  \<open>float64\<close> is the host's floating-point type.  Its values and operations are not
  modelled: the type is left abstract and every operation the interpreter performs on
  it is a field of \<open>float64_ops\<close>, a parameter of the functions that need it.
\<close>

typedecl float64

record float64_ops =
  f_add :: "float64 \<Rightarrow> float64 \<Rightarrow> float64"
  f_sub :: "float64 \<Rightarrow> float64 \<Rightarrow> float64"
  f_mul :: "float64 \<Rightarrow> float64 \<Rightarrow> float64"
  f_div :: "float64 \<Rightarrow> float64 \<Rightarrow> float64"
  f_neg :: "float64 \<Rightarrow> float64"
  f_lt :: "float64 \<Rightarrow> float64 \<Rightarrow> bool"
  f_le :: "float64 \<Rightarrow> float64 \<Rightarrow> bool"
  f_eq :: "float64 \<Rightarrow> float64 \<Rightarrow> bool"
  f_format :: "float64 \<Rightarrow> string"
  f_parse :: "string \<Rightarrow> float64 option"

type_synonym int64 = "64 word"

datatype ident = Identifier (id_token: token) (id_value: string)

datatype expression =
    Ident ident
  | IntegerLiteral token int64
  | FloatLiteral token float64
  | BooleanLiteral token bool
  | StringLiteral token string
  | ArrayLiteral token "expression list"
  | PrefixExpression token string expression
  | InfixExpression token expression string expression
  | IfExpression token expression block "block option"
  | FunctionLiteral token "ident list" block
  | CallExpression token expression "expression list"
  | IndexExpression token expression expression
and statement =
    LetStatement token ident expression
  | ReturnStatement token expression
  | ExpressionStatement token expression
and block =
    BlockStatement token "statement list"

datatype program = Program "statement list"

section \<open>Runtime values (object.go)\<close>

text \<open>
  A Go \<open>Object\<close> is an interface value: either \<open>nil\<close> or a pointer to one of the
  structs below.  The evaluator compares such pointers (\<open>left == right\<close>, the \<open>switch\<close>
  in \<open>isTruthy\<close>), so every struct carries the address it was allocated at as its first
  argument.  \<open>NilObject\<close> is the nil interface, which the evaluator does produce (the
  value of an empty block).  A \<open>Function\<close> holds its parameters, its body and the address
  of the environment it captured.  A \<open>Builtin\<close> holds the key of its entry in the
  \<open>builtins\<close> table instead of the Go closure stored there.
\<close>

type_synonym addr = nat

datatype object =
    NilObject
  | Array addr "object list"
  | Boolean addr bool
  | Builtin addr string
  | Error addr string
  | Float addr float64
  | Function addr "ident list" block addr
  | Integer addr int64
  | Null addr
  | ReturnValue addr object
  | StringValue addr string

definition ARRAY_OBJ :: string where "ARRAY_OBJ = ''ARRAY''"
definition BOOL_OBJ :: string where "BOOL_OBJ = ''BOOLEAN''"
definition BUILTIN_OBJ :: string where "BUILTIN_OBJ = ''BUILTIN''"
definition ERR_OBJ :: string where "ERR_OBJ = ''ERROR_OBJ''"
definition FLOAT_OBJ :: string where "FLOAT_OBJ = ''FLOAT''"
definition FUNCTION_OBJ :: string where "FUNCTION_OBJ = ''FUNCTION''"
definition INTEGER_OBJ :: string where "INTEGER_OBJ = ''INTEGER''"
definition NULL_OBJ :: string where "NULL_OBJ = ''NULL''"
definition RETURN_OBJ :: string where "RETURN_OBJ = ''RETURN_VALUE''"
definition STRING_OBJ :: string where "STRING_OBJ = ''STRING_OBJ''"

lemmas object_type_defs =
  ARRAY_OBJ_def BOOL_OBJ_def BUILTIN_OBJ_def ERR_OBJ_def FLOAT_OBJ_def FUNCTION_OBJ_def
  INTEGER_OBJ_def NULL_OBJ_def RETURN_OBJ_def STRING_OBJ_def

text \<open>What can stop a Go function other than its \<open>return\<close>: a run-time panic.\<close>

datatype panic = NilDereference | IndexOutOfRange | DivideByZero | TypeAssertion

text \<open>
  The outcome of running a piece of the interpreter: it returns (\<open>Done\<close>), the host
  panics, or the fuel of the model ran out (\<open>Timeout\<close>: the recursion was cut off, which
  says nothing about the program).
\<close>

datatype 'a result = Done 'a | Panic panic | Timeout

fun bind :: "'a result \<Rightarrow> ('a \<Rightarrow> 'b result) \<Rightarrow> 'b result" where
  "bind (Done x) f = f x"
| "bind (Panic p) f = Panic p"
| "bind Timeout f = Timeout"

text \<open>Go's \<open>a && b\<close> and a branch on a condition, when evaluating the operands can panic.\<close>

fun andAlso :: "bool result \<Rightarrow> bool result \<Rightarrow> bool result" where
  "andAlso (Done True) q = q"
| "andAlso (Done False) q = Done False"
| "andAlso (Panic p) q = Panic p"
| "andAlso Timeout q = Timeout"

fun orElse :: "bool result \<Rightarrow> bool result \<Rightarrow> bool result" where
  "orElse (Done True) q = Done True"
| "orElse (Done False) q = q"
| "orElse (Panic p) q = Panic p"
| "orElse Timeout q = Timeout"

fun cond :: "bool result \<Rightarrow> 'a result \<Rightarrow> 'a result \<Rightarrow> 'a result" where
  "cond (Done True) a b = a"
| "cond (Done False) a b = b"
| "cond (Panic p) a b = Panic p"
| "cond Timeout a b = Timeout"

text \<open>\<open>o.Type()\<close>: a method call through the interface, which panics on nil.\<close>

fun Type :: "object \<Rightarrow> string result" where
  "Type NilObject = Panic NilDereference"
| "Type (Array a es) = Done ARRAY_OBJ"
| "Type (Boolean a b) = Done BOOL_OBJ"
| "Type (Builtin a n) = Done BUILTIN_OBJ"
| "Type (Error a m) = Done ERR_OBJ"
| "Type (Float a f) = Done FLOAT_OBJ"
| "Type (Function a ps b e) = Done FUNCTION_OBJ"
| "Type (Integer a i) = Done INTEGER_OBJ"
| "Type (Null a) = Done NULL_OBJ"
| "Type (ReturnValue a v) = Done RETURN_OBJ"
| "Type (StringValue a s) = Done STRING_OBJ"

definition typeIs :: "object \<Rightarrow> string \<Rightarrow> bool result" where
  "typeIs obj t = bind (Type obj) (\<lambda>ty. Done (ty = t))"

text \<open>The pointer inside the interface value; \<open>left == right\<close> compares these.\<close>

fun address :: "object \<Rightarrow> addr option" where
  "address NilObject = None"
| "address (Array a es) = Some a"
| "address (Boolean a b) = Some a"
| "address (Builtin a n) = Some a"
| "address (Error a m) = Some a"
| "address (Float a f) = Some a"
| "address (Function a ps b e) = Some a"
| "address (Integer a i) = Some a"
| "address (Null a) = Some a"
| "address (ReturnValue a v) = Some a"
| "address (StringValue a s) = Some a"

definition same_pointer :: "object \<Rightarrow> object \<Rightarrow> bool" where
  "same_pointer x y = (address x = address y)"

text \<open>The three package-level objects; \<open>&TrueObject\<close> and the others are fixed addresses.\<close>

definition FalseObject :: object where "FalseObject = Boolean 0 False"
definition TrueObject :: object where "TrueObject = Boolean 1 True"
definition NullObject :: object where "NullObject = Null 2"

definition nativeBoolToBoolObj :: "bool \<Rightarrow> object" where
  "nativeBoolToBoolObj input = (if input then TrueObject else FalseObject)"

fun isError :: "object \<Rightarrow> bool" where
  "isError (Error a m) = True"
| "isError _ = False"

fun unwrapReturnValue :: "object \<Rightarrow> object" where
  "unwrapReturnValue (ReturnValue a v) = v"
| "unwrapReturnValue obj = obj"

definition isTruthy :: "object \<Rightarrow> bool" where
  "isTruthy obj =
     (if same_pointer obj NullObject then False
      else if same_pointer obj TrueObject then True
      else if same_pointer obj FalseObject then False
      else True)"

definition evalBangOperatorExpr :: "object \<Rightarrow> object" where
  "evalBangOperatorExpr right =
     (if same_pointer right TrueObject then FalseObject
      else if same_pointer right FalseObject then TrueObject
      else if same_pointer right NullObject then TrueObject
      else FalseObject)"

subsection \<open>Environments and the interpreter's state\<close>

text \<open>
  An \<open>*Environment\<close> is an index into \<open>envs\<close>, the environments allocated so far
  (\<open>newEnvironment\<close> appends one); \<open>outer\<close> is nil or such a pointer.  \<open>next_addr\<close> is
  the address the next object is allocated at, \<open>stdout\<close> the lines \<open>puts\<close> has printed.
\<close>

record environment =
  store :: "string \<Rightarrow> object option"
  outer :: "nat option"

record state =
  envs :: "environment list"
  next_addr :: addr
  stdout :: "string list"

definition newEnclosedEnvironment :: "nat option \<Rightarrow> state \<Rightarrow> nat \<times> state" where
  "newEnclosedEnvironment out s =
     (length (envs s), s\<lparr>envs := envs s @ [\<lparr>store = Map.empty, outer = out\<rparr>]\<rparr>)"

definition newEnvironment :: "state \<Rightarrow> nat \<times> state" where
  "newEnvironment s = newEnclosedEnvironment None s"

text \<open>
  \<open>env_get\<close> is \<open>Environment.get\<close>, which follows the \<open>outer\<close> chain.  Its first argument bounds the number of
  environments visited.  A pointer that is no environment (none exists in Go) is a nil
  dereference.
\<close>

fun env_get :: "nat \<Rightarrow> state \<Rightarrow> nat \<Rightarrow> string \<Rightarrow> (object \<times> bool) result" where
  "env_get 0 s e name = Timeout"
| "env_get (Suc n) s e name =
     (if e < length (envs s) then
        (case store (envs s ! e) name of
           Some obj \<Rightarrow> Done (obj, True)
         | None \<Rightarrow>
             (case outer (envs s ! e) of
                Some out \<Rightarrow> env_get n s out name
              | None \<Rightarrow> Done (NilObject, False)))
      else Panic NilDereference)"

definition env_set :: "state \<Rightarrow> nat \<Rightarrow> string \<Rightarrow> object \<Rightarrow> state result" where
  "env_set s e name val =
     (if e < length (envs s) then
        Done (s\<lparr>envs := (envs s)[e := (envs s ! e)\<lparr>store := (store (envs s ! e))(name \<mapsto> val)\<rparr>]\<rparr>)
      else Panic NilDereference)"

text \<open>Allocation: \<open>&T{...}\<close> yields a pointer no live object has.\<close>

definition alloc :: "(addr \<Rightarrow> object) \<Rightarrow> state \<Rightarrow> object \<times> state" where
  "alloc mk s = (mk (next_addr s), s\<lparr>next_addr := Suc (next_addr s)\<rparr>)"

definition newError :: "string \<Rightarrow> state \<Rightarrow> (object \<times> state) result" where
  "newError msg s = Done (alloc (\<lambda>a. Error a msg) s)"

subsection \<open>Display forms (\<open>inspect\<close>)\<close>

text \<open>
  \<open>Array.inspect\<close> appends each element's display form to \<open>elements\<close> and, at index 5,
  returns what it has collected followed by \<open>", ..."\<close>.  \<open>inspect_elements\<close> is that loop:
  the remaining elements, the index of the first of them, and \<open>elements\<close> so far.
\<close>

fun inspect :: "float64_ops \<Rightarrow> object \<Rightarrow> string result"
and inspect_elements :: "float64_ops \<Rightarrow> object list \<Rightarrow> nat \<Rightarrow> string list \<Rightarrow> string result" where
  "inspect fo NilObject = Panic NilDereference"
| "inspect fo (Array a es) = inspect_elements fo es 0 []"
| "inspect fo (Boolean a b) = Done (if b then ''true'' else ''false'')"
| "inspect fo (Builtin a n) = Done ''builtin function''"
| "inspect fo (Error a m) = Done (''Error: '' @ m)"
| "inspect fo (Float a f) = Done (f_format fo f)"
| "inspect fo (Function a ps b e) = Done (''fn('' @ join (map id_value ps) '', '' @ '')'')"
| "inspect fo (Integer a i) = Done (string_of_int (sint i))"
| "inspect fo (Null a) = Done ''null''"
| "inspect fo (ReturnValue a v) = inspect fo v"
| "inspect fo (StringValue a s) = Done s"
| "inspect_elements fo [] idx elements = Done (''['' @ join elements '', '' @ '']'')"
| "inspect_elements fo (elem # rest) idx elements =
     bind (inspect fo elem) (\<lambda>str.
       if idx = 5 then Done (''['' @ join (elements @ [str]) '', '' @ '', ...'' @ '']'')
       else inspect_elements fo rest (Suc idx) (elements @ [str]))"

section \<open>Built-in functions (golangBuiltins.go)\<close>

text \<open>Go's \<open>make([]Object, n, n)\<close> (n nil interfaces) and \<open>copy(dst, src)\<close>.\<close>

definition make_slice :: "nat \<Rightarrow> object list" where
  "make_slice n = replicate n NilObject"

definition copy_slice :: "object list \<Rightarrow> object list \<Rightarrow> object list" where
  "copy_slice dst src =
     take (min (length dst) (length src)) src @ drop (min (length dst) (length src)) dst"

text \<open>The entries of the \<open>builtins\<close> table are allocated once, at addresses 3 to 9.\<close>

definition builtins :: "string \<Rightarrow> object option" where
  "builtins name =
     (if name = ''len'' then Some (Builtin 3 ''len'')
      else if name = ''first'' then Some (Builtin 4 ''first'')
      else if name = ''last'' then Some (Builtin 5 ''last'')
      else if name = ''rest'' then Some (Builtin 6 ''rest'')
      else if name = ''push'' then Some (Builtin 7 ''push'')
      else if name = ''range_array'' then Some (Builtin 8 ''range_array'')
      else if name = ''puts'' then Some (Builtin 9 ''puts'')
      else None)"

definition builtin_len :: "object list \<Rightarrow> state \<Rightarrow> (object \<times> state) result" where
  "builtin_len args s =
     (if length args \<noteq> 1 then
        newError (''wrong number of args passed to len(). Got '' @ string_of_nat (length args) @ '', want 1'') s
      else
        (case args ! 0 of
           Array a es \<Rightarrow> Done (alloc (\<lambda>p. Integer p (of_nat (length es))) s)
         | StringValue a v \<Rightarrow> Done (alloc (\<lambda>p. Integer p (of_nat (length v))) s)
         | _ \<Rightarrow> bind (Type (args ! 0)) (\<lambda>ty.
                  newError (''argument to 'len()' not supported, got '' @ ty) s)))"

definition builtin_first :: "object list \<Rightarrow> state \<Rightarrow> (object \<times> state) result" where
  "builtin_first args s =
     (if length args \<noteq> 1 then
        newError (''first: wrong number of arguments. Got '' @ string_of_nat (length args) @ '', want 1'') s
      else
        bind (Type (args ! 0)) (\<lambda>ty.
          if ty \<noteq> ARRAY_OBJ then
            newError (''first: arguments to first must be an Array, got '' @ ty @ ''.'') s
          else
            (case args ! 0 of
               Array a es \<Rightarrow> if length es > 0 then Done (es ! 0, s) else Done (NullObject, s)
             | _ \<Rightarrow> Panic TypeAssertion)))"

definition builtin_last :: "object list \<Rightarrow> state \<Rightarrow> (object \<times> state) result" where
  "builtin_last args s =
     (if length args \<noteq> 1 then
        newError (''last: wrong number of arguments. Got '' @ string_of_nat (length args) @ '', want 1'') s
      else
        bind (Type (args ! 0)) (\<lambda>ty.
          if ty \<noteq> ARRAY_OBJ then
            newError (''last: arguments to last must be an Array, got '' @ ty @ ''.'') s
          else
            (case args ! 0 of
               Array a es \<Rightarrow>
                 if length es > 0 then Done (es ! (length es - 1), s) else Done (NullObject, s)
             | _ \<Rightarrow> Panic TypeAssertion)))"

definition builtin_rest :: "object list \<Rightarrow> state \<Rightarrow> (object \<times> state) result" where
  "builtin_rest args s =
     (if length args \<noteq> 1 then
        newError (''rest: wrong number of arguments. Got '' @ string_of_nat (length args) @ '', want 1'') s
      else
        bind (Type (args ! 0)) (\<lambda>ty.
          if ty \<noteq> ARRAY_OBJ then
            newError (''rest: arguments to rest must be an Array, got '' @ ty @ ''.'') s
          else
            (case args ! 0 of
               Array a es \<Rightarrow>
                 if length es > 0 then
                   (let newElements = copy_slice (make_slice (length es - 1)) (drop 1 es)
                    in Done (alloc (\<lambda>p. Array p newElements) s))
                 else Done (NullObject, s)
             | _ \<Rightarrow> Panic TypeAssertion)))"

definition builtin_push :: "object list \<Rightarrow> state \<Rightarrow> (object \<times> state) result" where
  "builtin_push args s =
     (if length args \<noteq> 2 then
        newError (''push: wrong number of arguments. Got '' @ string_of_nat (length args) @ '', want 2'') s
      else
        bind (Type (args ! 0)) (\<lambda>ty.
          if ty \<noteq> ARRAY_OBJ then
            newError (''push: first argument to push must be an Array, got '' @ ty @ ''.'') s
          else
            (case args ! 0 of
               Array a es \<Rightarrow>
                 (let newElements = (copy_slice (make_slice (length es + 1)) es)[length es := args ! 1]
                  in Done (alloc (\<lambda>p. Array p newElements) s))
             | _ \<Rightarrow> Panic TypeAssertion)))"

text \<open>
  The loop of \<open>range_array\<close> counts an \<open>int64\<close> up to \<open>stop\<close> inclusive; with \<open>stop\<close> the
  largest \<open>int64\<close> the increment wraps and the loop has no end, so it takes fuel.
\<close>

fun range_array_loop ::
  "nat \<Rightarrow> int64 \<Rightarrow> int64 \<Rightarrow> object list \<Rightarrow> state \<Rightarrow> (object list \<times> state) result" where
  "range_array_loop 0 i stop arr s = Timeout"
| "range_array_loop (Suc n) i stop arr s =
     (if i \<le>s stop then
        (let (obj, s') = alloc (\<lambda>p. Integer p i) s
         in range_array_loop n (i + 1) stop (arr @ [obj]) s')
      else Done (arr, s))"

definition builtin_range_array ::
  "nat \<Rightarrow> object list \<Rightarrow> state \<Rightarrow> (object \<times> state) result" where
  "builtin_range_array n args s =
     (if length args \<noteq> 2 then
        newError (''range_array: wrong number of arguments. Got '' @ string_of_nat (length args) @ '', want 2'') s
      else
        bind (Type (args ! 0)) (\<lambda>t0. bind (Type (args ! 1)) (\<lambda>t1.
          if t0 \<noteq> t1 \<or> t0 \<noteq> INTEGER_OBJ then
            newError (''range_array: invalid types provided: ('' @ t0 @ '', '' @ t1 @
                      ''). This function only accepts INTEGERS.'') s
          else
            (case (args ! 0, args ! 1) of
               (Integer a start, Integer b stop) \<Rightarrow>
                 bind (range_array_loop n start stop [] s) (\<lambda>(arr, s').
                   Done (alloc (\<lambda>p. Array p arr) s'))
             | _ \<Rightarrow> Panic TypeAssertion))))"

fun builtin_puts :: "float64_ops \<Rightarrow> object list \<Rightarrow> state \<Rightarrow> (object \<times> state) result" where
  "builtin_puts fo [] s = Done (NullObject, s)"
| "builtin_puts fo (arg # args) s =
     bind (inspect fo arg) (\<lambda>str. builtin_puts fo args (s\<lparr>stdout := stdout s @ [str]\<rparr>))"

text \<open>\<open>fn.fn(args...)\<close> for the \<open>Builtin\<close> stored under \<open>name\<close>.\<close>

definition callBuiltin ::
  "float64_ops \<Rightarrow> nat \<Rightarrow> string \<Rightarrow> object list \<Rightarrow> state \<Rightarrow> (object \<times> state) result" where
  "callBuiltin fo n name args s =
     (if name = ''len'' then builtin_len args s
      else if name = ''first'' then builtin_first args s
      else if name = ''last'' then builtin_last args s
      else if name = ''rest'' then builtin_rest args s
      else if name = ''push'' then builtin_push args s
      else if name = ''range_array'' then builtin_range_array n args s
      else if name = ''puts'' then builtin_puts fo args s
      else Panic NilDereference)"

section \<open>The evaluator\<close>

subsection \<open>Infix, prefix and index operators\<close>

definition evalOtherInfixOperators_int64 ::
  "token \<Rightarrow> int64 \<Rightarrow> int64 \<Rightarrow> string \<Rightarrow> state \<Rightarrow> (object \<times> state) result" where
  "evalOtherInfixOperators_int64 tok left right operator s =
     (if operator = ''<'' then Done (nativeBoolToBoolObj (left <s right), s)
      else if operator = ''<='' then Done (nativeBoolToBoolObj (left \<le>s right), s)
      else if operator = ''>'' then Done (nativeBoolToBoolObj (right <s left), s)
      else if operator = ''>='' then Done (nativeBoolToBoolObj (right \<le>s left), s)
      else if operator = ''!='' then Done (nativeBoolToBoolObj (left \<noteq> right), s)
      else if operator = ''=='' then Done (nativeBoolToBoolObj (left = right), s)
      else newError
        (''invalid operator found when evaluating infix expression {'' @
         string_of_int (sint left) @ '' '' @ operator @ '' '' @ string_of_int (sint right) @
         ''}. On line '' @ string_of_nat (line tok) @ '', column '' @
         string_of_nat (column tok) @ ''.'') s)"

definition evalOtherInfixOperators_float64 ::
  "float64_ops \<Rightarrow> token \<Rightarrow> float64 \<Rightarrow> float64 \<Rightarrow> string \<Rightarrow> state \<Rightarrow> (object \<times> state) result" where
  "evalOtherInfixOperators_float64 fo tok left right operator s =
     (if operator = ''<'' then Done (nativeBoolToBoolObj (f_lt fo left right), s)
      else if operator = ''<='' then Done (nativeBoolToBoolObj (f_le fo left right), s)
      else if operator = ''>'' then Done (nativeBoolToBoolObj (f_lt fo right left), s)
      else if operator = ''>='' then Done (nativeBoolToBoolObj (f_le fo right left), s)
      else if operator = ''!='' then Done (nativeBoolToBoolObj (\<not> f_eq fo left right), s)
      else if operator = ''=='' then Done (nativeBoolToBoolObj (f_eq fo left right), s)
      else newError
        (''invalid operator found when evaluating infix expression {'' @
         f_format fo left @ '' '' @ operator @ '' '' @ f_format fo right @
         ''}. On line '' @ string_of_nat (line tok) @ '', column '' @
         string_of_nat (column tok) @ ''.'') s)"

text \<open>
  Go's \<open>/\<close> on \<open>int64\<close> panics when the divisor is zero; otherwise the quotient is
  truncated towards zero (\<open>sdiv\<close> on \<open>int\<close>) and wraps into 64 bits (only the most
  negative value divided by \<open>-1\<close> does).
\<close>

definition int64_quo :: "int64 \<Rightarrow> int64 \<Rightarrow> int64" where
  "int64_quo a b = word_of_int (sint a sdiv sint b)"

definition evalIntegerInfixExpr ::
  "token \<Rightarrow> object \<Rightarrow> object \<Rightarrow> string \<Rightarrow> state \<Rightarrow> (object \<times> state) result" where
  "evalIntegerInfixExpr tok left right operator s =
     (case (left, right) of
        (Integer la leftVal, Integer ra rightVal) \<Rightarrow>
          if operator = ''+'' then Done (alloc (\<lambda>p. Integer p (leftVal + rightVal)) s)
          else if operator = ''-'' then Done (alloc (\<lambda>p. Integer p (leftVal - rightVal)) s)
          else if operator = ''/'' then
            (if rightVal = 0 then Panic DivideByZero
             else Done (alloc (\<lambda>p. Integer p (int64_quo leftVal rightVal)) s))
          else if operator = ''*'' then Done (alloc (\<lambda>p. Integer p (leftVal * rightVal)) s)
          else evalOtherInfixOperators_int64 tok leftVal rightVal operator s
      | _ \<Rightarrow> Panic TypeAssertion)"

definition evalFloatInfixExpr ::
  "float64_ops \<Rightarrow> token \<Rightarrow> object \<Rightarrow> object \<Rightarrow> string \<Rightarrow> state \<Rightarrow> (object \<times> state) result" where
  "evalFloatInfixExpr fo tok left right operator s =
     (case (left, right) of
        (Float la leftVal, Float ra rightVal) \<Rightarrow>
          if operator = ''+'' then Done (alloc (\<lambda>p. Float p (f_add fo leftVal rightVal)) s)
          else if operator = ''-'' then Done (alloc (\<lambda>p. Float p (f_sub fo leftVal rightVal)) s)
          else if operator = ''/'' then Done (alloc (\<lambda>p. Float p (f_div fo leftVal rightVal)) s)
          else if operator = ''*'' then Done (alloc (\<lambda>p. Float p (f_mul fo leftVal rightVal)) s)
          else evalOtherInfixOperators_float64 fo tok leftVal rightVal operator s
      | _ \<Rightarrow> Panic TypeAssertion)"

definition evalStringInfixExpression ::
  "token \<Rightarrow> string \<Rightarrow> object \<Rightarrow> object \<Rightarrow> state \<Rightarrow> (object \<times> state) result" where
  "evalStringInfixExpression tok operator left right s =
     (if operator \<noteq> ''+'' then
        bind (Type left) (\<lambda>lt. bind (Type right) (\<lambda>rt.
          newError
            (''invalid operator found when evaluating infix expression {'' @
             lt @ '' '' @ operator @ '' '' @ rt @
             ''}. On line '' @ string_of_nat (line tok) @ '', column '' @
             string_of_nat (column tok) @ ''.'') s))
      else
        (case (left, right) of
           (StringValue la leftVal, StringValue ra rightVal) \<Rightarrow>
             Done (alloc (\<lambda>p. StringValue p (leftVal @ rightVal)) s)
         | _ \<Rightarrow> Panic TypeAssertion))"

text \<open>
  The \<open>switch\<close> of \<open>evalInfixExpr\<close> tries its cases in order; a case's condition calls
  \<open>Type()\<close> on an operand only as far as \<open>&&\<close> evaluates it.
\<close>

definition evalInfixExpr ::
  "float64_ops \<Rightarrow> token \<Rightarrow> object \<Rightarrow> object \<Rightarrow> string \<Rightarrow> state \<Rightarrow> (object \<times> state) result" where
  "evalInfixExpr fo tok left right operator s =
     cond (andAlso (typeIs left INTEGER_OBJ) (typeIs right INTEGER_OBJ))
       (evalIntegerInfixExpr tok left right operator s)
    (cond (andAlso (typeIs left FLOAT_OBJ) (typeIs right FLOAT_OBJ))
       (evalFloatInfixExpr fo tok left right operator s)
    (cond (andAlso (typeIs left STRING_OBJ) (typeIs right STRING_OBJ))
       (evalStringInfixExpression tok operator left right s)
    (cond (Done (operator = ''==''))
       (Done (nativeBoolToBoolObj (same_pointer left right), s))
    (cond (Done (operator = ''!=''))
       (Done (nativeBoolToBoolObj (\<not> same_pointer left right), s))
    (cond (bind (Type left) (\<lambda>lt. bind (Type right) (\<lambda>rt. Done (lt \<noteq> rt))))
       (bind (Type left) (\<lambda>lt. bind (Type right) (\<lambda>rt.
          newError
            (''mismatched types found when evaluating infix expression {'' @
             lt @ '', '' @ rt @
             ''}. On line: '' @ string_of_nat (line tok) @ '', column: '' @
             string_of_nat (column tok)) s)))
       (bind (Type left) (\<lambda>lt. bind (Type right) (\<lambda>rt.
          newError
            (''invalid operator found when evaluating infix expression {'' @
             lt @ '' '' @ operator @ '' '' @ rt @
             ''}. On line '' @ string_of_nat (line tok) @ '', column '' @
             string_of_nat (column tok) @ ''.'') s))))))))"

definition evalMinusPrefixExpr :: "float64_ops \<Rightarrow> token \<Rightarrow> object \<Rightarrow> state \<Rightarrow> (object \<times> state) result" where
  "evalMinusPrefixExpr fo tok right s =
     bind (Type right) (\<lambda>ty.
       if ty = INTEGER_OBJ then
         (case right of
            Integer a v \<Rightarrow> Done (alloc (\<lambda>p. Integer p (- v)) s)
          | _ \<Rightarrow> Panic TypeAssertion)
       else if ty = FLOAT_OBJ then
         (case right of
            Float a v \<Rightarrow> Done (alloc (\<lambda>p. Float p (f_neg fo v)) s)
          | _ \<Rightarrow> Panic TypeAssertion)
       else
         newError
           (''invalid operator {'' @ literal tok @ ''}. On line: '' @
            string_of_nat (line tok) @ '', column: '' @ string_of_nat (column tok) @ ''.'') s)"

definition evalPrefixExpression ::
  "float64_ops \<Rightarrow> token \<Rightarrow> string \<Rightarrow> object \<Rightarrow> state \<Rightarrow> (object \<times> state) result" where
  "evalPrefixExpression fo tok operator right s =
     (if operator = ''!'' then Done (evalBangOperatorExpr right, s)
      else if operator = ''-'' then evalMinusPrefixExpr fo tok right s
      else newError
        (''invalid operator in prefix position {'' @ operator @ ''}. On line: '' @
         string_of_nat (line tok) @ '', column: '' @ string_of_nat (column tok)) s)"

text \<open>
  \<open>max\<close> is \<open>int64(len(elements) - 1)\<close>, \<open>-1\<close> for the empty array; the index is compared
  as a signed number.
\<close>

definition evalArrayIndexExpression :: "object \<Rightarrow> object \<Rightarrow> object result" where
  "evalArrayIndexExpression array index =
     (case (array, index) of
        (Array a elements, Integer b idx) \<Rightarrow>
          (let max = int (length elements) - 1 in
           if sint idx < 0 \<or> sint idx > max then Done NullObject
           else Done (elements ! nat (sint idx)))
      | _ \<Rightarrow> Panic TypeAssertion)"

definition evalIndexExpression ::
  "token \<Rightarrow> object \<Rightarrow> object \<Rightarrow> state \<Rightarrow> (object \<times> state) result" where
  "evalIndexExpression tok left index s =
     cond (andAlso (typeIs left ARRAY_OBJ) (typeIs index INTEGER_OBJ))
       (bind (evalArrayIndexExpression left index) (\<lambda>obj. Done (obj, s)))
       (bind (Type left) (\<lambda>lt.
          newError
            (''index operator not supported: '' @ lt @ ''. On line '' @
             string_of_nat (line tok) @ '', column: '' @ string_of_nat (column tok) @ ''.'') s))"

definition evalIdentifier ::
  "nat \<Rightarrow> token \<Rightarrow> ident \<Rightarrow> nat \<Rightarrow> state \<Rightarrow> (object \<times> state) result" where
  "evalIdentifier n tok node env s =
     bind (env_get n s env (id_value node)) (\<lambda>(val, ok).
       if ok then Done (val, s)
       else
         (case builtins (id_value node) of
            Some builtin \<Rightarrow> Done (builtin, s)
          | None \<Rightarrow>
              newError
                (''identifier not found {'' @ id_value node @ ''}. Found on line: '' @
                 string_of_nat (line tok) @ '', column: '' @ string_of_nat (column tok) @ ''.'') s))"

text \<open>
  \<open>extendFunctionEnv\<close>: a new environment enclosing the function's, then one \<open>env.set\<close>
  per parameter with \<open>args[idx]\<close>, which panics when \<open>idx\<close> is not an index of \<open>args\<close>.
\<close>

fun bindParameters ::
  "ident list \<Rightarrow> nat \<Rightarrow> object list \<Rightarrow> nat \<Rightarrow> state \<Rightarrow> state result" where
  "bindParameters [] idx args env s = Done s"
| "bindParameters (param # params) idx args env s =
     (if idx < length args then
        bind (env_set s env (id_value param) (args ! idx)) (\<lambda>s'.
          bindParameters params (Suc idx) args env s')
      else Panic IndexOutOfRange)"

definition extendFunctionEnv :: "object \<Rightarrow> object list \<Rightarrow> state \<Rightarrow> (nat \<times> state) result" where
  "extendFunctionEnv fn args s =
     (case fn of
        Function a parameters body fenv \<Rightarrow>
          (let (env, s') = newEnclosedEnvironment (Some fenv) s in
           bind (bindParameters parameters 0 args env s') (\<lambda>s''. Done (env, s'')))
      | _ \<Rightarrow> Panic TypeAssertion)"

subsection \<open>\<open>eval\<close>\<close>

text \<open>
  Go's \<open>eval\<close> switches on the node's type; here it is \<open>eval_statement\<close> and
  \<open>eval_expression\<close>, with \<open>evalBlockStatement\<close> for a block and \<open>evalProgram\<close> for the
  program.  A program of \<open>L\<close> need not terminate, so the functions take fuel: every call
  passes on one unit less and \<open>Timeout\<close> is the result at 0.  The loops over statements
  carry the local variable \<open>result\<close> (initially nil), \<open>evalExpressions\<close> the slice
  \<open>result\<close> built so far.
\<close>

function eval_expression ::
  "float64_ops \<Rightarrow> nat \<Rightarrow> expression \<Rightarrow> nat \<Rightarrow> state \<Rightarrow> (object \<times> state) result"
and eval_statement ::
  "float64_ops \<Rightarrow> nat \<Rightarrow> statement \<Rightarrow> nat \<Rightarrow> state \<Rightarrow> (object \<times> state) result"
and evalProgram ::
  "float64_ops \<Rightarrow> nat \<Rightarrow> statement list \<Rightarrow> object \<Rightarrow> nat \<Rightarrow> state \<Rightarrow> (object \<times> state) result"
and evalBlockStatement ::
  "float64_ops \<Rightarrow> nat \<Rightarrow> statement list \<Rightarrow> object \<Rightarrow> nat \<Rightarrow> state \<Rightarrow> (object \<times> state) result"
and evalExpressions ::
  "float64_ops \<Rightarrow> nat \<Rightarrow> expression list \<Rightarrow> object list \<Rightarrow> nat \<Rightarrow> state
    \<Rightarrow> (object list \<times> state) result"
and evalIfExpression ::
  "float64_ops \<Rightarrow> nat \<Rightarrow> expression \<Rightarrow> block \<Rightarrow> block option \<Rightarrow> nat \<Rightarrow> state
    \<Rightarrow> (object \<times> state) result"
and applyFunction ::
  "float64_ops \<Rightarrow> nat \<Rightarrow> token \<Rightarrow> object \<Rightarrow> object list \<Rightarrow> state \<Rightarrow> (object \<times> state) result"
where
  "eval_expression fo 0 node env s = Timeout"
| "eval_expression fo (Suc n) (ArrayLiteral tok elems) env s =
     bind (evalExpressions fo n elems [] env s) (\<lambda>(elements, s').
       if length elements = 1 \<and> isError (elements ! 0) then Done (elements ! 0, s')
       else Done (alloc (\<lambda>p. Array p elements) s'))"
| "eval_expression fo (Suc n) (BooleanLiteral tok v) env s = Done (nativeBoolToBoolObj v, s)"
| "eval_expression fo (Suc n) (CallExpression tok function arguments) env s =
     bind (eval_expression fo n function env s) (\<lambda>(fn, s1).
       if isError fn then Done (fn, s1)
       else
         bind (evalExpressions fo n arguments [] env s1) (\<lambda>(args, s2).
           if length args = 1 \<and> isError (args ! 0) then Done (args ! 0, s2)
           else applyFunction fo n tok fn args s2))"
| "eval_expression fo (Suc n) (FloatLiteral tok v) env s = Done (alloc (\<lambda>p. Float p v) s)"
| "eval_expression fo (Suc n) (FunctionLiteral tok params body) env s =
     Done (alloc (\<lambda>p. Function p params body env) s)"
| "eval_expression fo (Suc n) (Ident node) env s = evalIdentifier n (id_token node) node env s"
| "eval_expression fo (Suc n) (IfExpression tok condition consequence alternative) env s =
     evalIfExpression fo n condition consequence alternative env s"
| "eval_expression fo (Suc n) (IndexExpression tok l i) env s =
     bind (eval_expression fo n l env s) (\<lambda>(left, s1).
       if isError left then Done (left, s1)
       else
         bind (eval_expression fo n i env s1) (\<lambda>(index, s2).
           if isError index then Done (index, s2)
           else evalIndexExpression tok left index s2))"
| "eval_expression fo (Suc n) (IntegerLiteral tok v) env s = Done (alloc (\<lambda>p. Integer p v) s)"
| "eval_expression fo (Suc n) (InfixExpression tok l operator r) env s =
     bind (eval_expression fo n l env s) (\<lambda>(left, s1).
       if isError left then Done (left, s1)
       else
         bind (eval_expression fo n r env s1) (\<lambda>(right, s2).
           if isError right then Done (right, s2)
           else evalInfixExpr fo tok left right operator s2))"
| "eval_expression fo (Suc n) (PrefixExpression tok operator r) env s =
     bind (eval_expression fo n r env s) (\<lambda>(right, s1).
       if isError right then Done (right, s1)
       else evalPrefixExpression fo tok operator right s1)"
| "eval_expression fo (Suc n) (StringLiteral tok v) env s =
     Done (alloc (\<lambda>p. StringValue p (literal tok)) s)"

| "eval_statement fo 0 node env s = Timeout"
| "eval_statement fo (Suc n) (ExpressionStatement tok e) env s = eval_expression fo n e env s"
| "eval_statement fo (Suc n) (LetStatement tok name v) env s =
     bind (eval_expression fo n v env s) (\<lambda>(val, s1).
       if isError val then Done (val, s1)
       else bind (env_set s1 env (id_value name) val) (\<lambda>s2. Done (val, s2)))"
| "eval_statement fo (Suc n) (ReturnStatement tok v) env s =
     bind (eval_expression fo n v env s) (\<lambda>(val, s1).
       if isError val then Done (val, s1)
       else Done (alloc (\<lambda>p. ReturnValue p val) s1))"

| "evalProgram fo 0 stmts result env s = Timeout"
| "evalProgram fo (Suc n) [] result env s = Done (result, s)"
| "evalProgram fo (Suc n) (stmt # stmts) result env s =
     bind (eval_statement fo n stmt env s) (\<lambda>(result', s1).
       (case result' of
          ReturnValue a v \<Rightarrow> Done (result', s1)
        | Error a m \<Rightarrow> Done (result', s1)
        | _ \<Rightarrow> evalProgram fo n stmts result' env s1))"

| "evalBlockStatement fo 0 stmts result env s = Timeout"
| "evalBlockStatement fo (Suc n) [] result env s = Done (result, s)"
| "evalBlockStatement fo (Suc n) (stmt # stmts) result env s =
     bind (eval_statement fo n stmt env s) (\<lambda>(result', s1).
       if result' \<noteq> NilObject then
         bind (Type result') (\<lambda>returnType.
           if returnType = RETURN_OBJ \<or> returnType = ERR_OBJ then Done (result', s1)
           else evalBlockStatement fo n stmts result' env s1)
       else evalBlockStatement fo n stmts result' env s1)"

| "evalExpressions fo 0 exprs result env s = Timeout"
| "evalExpressions fo (Suc n) [] result env s = Done (result, s)"
| "evalExpressions fo (Suc n) (expr # exprs) result env s =
     bind (eval_expression fo n expr env s) (\<lambda>(evaluated, s1).
       if isError evaluated then Done ([evaluated], s1)
       else evalExpressions fo n exprs (result @ [evaluated]) env s1)"

| "evalIfExpression fo 0 condition consequence alternative env s = Timeout"
| "evalIfExpression fo (Suc n) cnd (BlockStatement ctok consequence) alternative env s =
     bind (eval_expression fo n cnd env s) (\<lambda>(condition, s1).
       if isError condition then Done (condition, s1)
       else if isTruthy condition then evalBlockStatement fo n consequence NilObject env s1
       else
         (case alternative of
            Some (BlockStatement atok alt) \<Rightarrow> evalBlockStatement fo n alt NilObject env s1
          | None \<Rightarrow> Done (NullObject, s1)))"

| "applyFunction fo 0 tok fn args s = Timeout"
| "applyFunction fo (Suc n) tok fn args s =
     (case fn of
        Function a parameters (BlockStatement btok body) fenv \<Rightarrow>
          bind (extendFunctionEnv fn args s) (\<lambda>(extendedEnv, s1).
            bind (evalBlockStatement fo n body NilObject extendedEnv s1) (\<lambda>(evaluated, s2).
              Done (unwrapReturnValue evaluated, s2)))
      | Builtin a name \<Rightarrow> callBuiltin fo n name args s
      | _ \<Rightarrow>
          bind (Type fn) (\<lambda>ty.
            newError
              (''attempted to eval something that wasn't a function {'' @ ty @
               ''}. On line: '' @ string_of_nat (line tok) @ '', column: '' @
               string_of_nat (column tok) @ ''.'') s))"
  by pat_completeness auto
termination
  by (relation "measure (\<lambda>x. case x of
        Inl (Inl (fo, n, r)) \<Rightarrow> n
      | Inl (Inr (Inl (fo, n, r))) \<Rightarrow> n
      | Inl (Inr (Inr (fo, n, r))) \<Rightarrow> n
      | Inr (Inl (Inl (fo, n, r))) \<Rightarrow> n
      | Inr (Inl (Inr (fo, n, r))) \<Rightarrow> n
      | Inr (Inr (Inl (fo, n, r))) \<Rightarrow> n
      | Inr (Inr (Inr (fo, n, r))) \<Rightarrow> n)") simp_all

text \<open>\<open>eval\<close> applied to a \<open>*Program\<close>, as \<open>main\<close> and the loaders call it.\<close>

fun eval :: "float64_ops \<Rightarrow> nat \<Rightarrow> program \<Rightarrow> nat \<Rightarrow> state \<Rightarrow> (object \<times> state) result" where
  "eval fo n (Program stmts) env s = evalProgram fo n stmts NilObject env s"

section \<open>Concrete inputs\<close>

text \<open>
  Inputs for evaluating the definitions: an instance of the floating-point parameter
  (no evaluation below touches a float), a token, and the state in which \<open>main\<close> starts
  evaluating: the static objects at addresses 0 to 9 and the top-level environment.
\<close>

definition example_float64_ops :: float64_ops where
  "example_float64_ops =
     \<lparr>f_add = (\<lambda>x y. x), f_sub = (\<lambda>x y. x), f_mul = (\<lambda>x y. x), f_div = (\<lambda>x y. x),
      f_neg = (\<lambda>x. x), f_lt = (\<lambda>x y. False), f_le = (\<lambda>x y. True), f_eq = (\<lambda>x y. True),
      f_format = (\<lambda>x. ''0''), f_parse = (\<lambda>str. None)\<rparr>"

definition example_token :: token where
  "example_token = \<lparr>tokenType = ILLEGAL, literal = ''?'', line = 1, column = 1\<rparr>"

definition start_state :: state where
  "start_state = \<lparr>envs = [\<lparr>store = Map.empty, outer = None\<rparr>], next_addr = 10, stdout = []\<rparr>"

definition example_array :: expression where
  "example_array =
     ArrayLiteral example_token [IntegerLiteral example_token 7, IntegerLiteral example_token 8]"

section \<open>Properties of the evaluator\<close>

lemma typeIs_simps [simp]:
  "typeIs NilObject t = Panic NilDereference"
  "typeIs (Array a es) t = Done (t = ARRAY_OBJ)"
  "typeIs (Boolean a b) t = Done (t = BOOL_OBJ)"
  "typeIs (Builtin a n) t = Done (t = BUILTIN_OBJ)"
  "typeIs (Error a m) t = Done (t = ERR_OBJ)"
  "typeIs (Float a f) t = Done (t = FLOAT_OBJ)"
  "typeIs (Function a ps bd e) t = Done (t = FUNCTION_OBJ)"
  "typeIs (Integer a i) t = Done (t = INTEGER_OBJ)"
  "typeIs (Null a) t = Done (t = NULL_OBJ)"
  "typeIs (ReturnValue a v) t = Done (t = RETURN_OBJ)"
  "typeIs (StringValue a str) t = Done (t = STRING_OBJ)"
  by (auto simp: typeIs_def)

subsection \<open>More fuel changes no result\<close>

text \<open>
  \<open>fuel_le r r'\<close>: \<open>r'\<close> is what \<open>r\<close> becomes with more fuel, that is \<open>r\<close> itself unless
  \<open>r\<close> is \<open>Timeout\<close>.  Every function that takes fuel is monotone in it.
\<close>

definition fuel_le :: "'a result \<Rightarrow> 'a result \<Rightarrow> bool" where
  "fuel_le r r' = (r = Timeout \<or> r = r')"

lemma fuel_le_refl [simp]: "fuel_le r r"
  by (simp add: fuel_le_def)

lemma fuel_le_Timeout [simp]: "fuel_le Timeout r"
  by (simp add: fuel_le_def)

lemma fuel_le_bind:
  "fuel_le m m' \<Longrightarrow> (\<And>x. fuel_le (f x) (f' x)) \<Longrightarrow> fuel_le (bind m f) (bind m' f')"
  by (cases m; cases m') (auto simp: fuel_le_def)

lemma fuel_le_Done: "fuel_le r r' \<Longrightarrow> r = Done x \<Longrightarrow> r' = Done x"
  by (auto simp: fuel_le_def)

lemma fuel_le_Panic: "fuel_le r r' \<Longrightarrow> r = Panic x \<Longrightarrow> r' = Panic x"
  by (auto simp: fuel_le_def)

lemma env_get_mono: "fuel_le (env_get n s e name) (env_get (Suc n) s e name)"
proof (induction n arbitrary: e)
  case 0
  show ?case by simp
next
  case (Suc n)
  show ?case
    using Suc.IH by (simp split: option.split)
qed

lemma range_array_loop_mono:
  "fuel_le (range_array_loop n i stop arr s) (range_array_loop (Suc n) i stop arr s)"
proof (induction n arbitrary: i arr s)
  case 0
  show ?case by simp
next
  case (Suc n)
  show ?case
    using Suc.IH by (simp split: prod.split)
qed

lemma callBuiltin_mono: "fuel_le (callBuiltin fo n name args s) (callBuiltin fo (Suc n) name args s)"
  unfolding callBuiltin_def builtin_range_array_def
  by (auto intro!: fuel_le_bind range_array_loop_mono split: object.split simp del: range_array_loop.simps)

lemma evalIdentifier_mono:
  "fuel_le (evalIdentifier n tok node env s) (evalIdentifier (Suc n) tok node env s)"
  unfolding evalIdentifier_def
  by (intro fuel_le_bind env_get_mono fuel_le_refl)

definition fuel_mono_at :: "float64_ops \<Rightarrow> nat \<Rightarrow> bool" where
  "fuel_mono_at fo n =
     ((\<forall>e env s. fuel_le (eval_expression fo n e env s) (eval_expression fo (Suc n) e env s))
    \<and> (\<forall>st env s. fuel_le (eval_statement fo n st env s) (eval_statement fo (Suc n) st env s))
    \<and> (\<forall>sts r env s. fuel_le (evalProgram fo n sts r env s) (evalProgram fo (Suc n) sts r env s))
    \<and> (\<forall>sts r env s. fuel_le (evalBlockStatement fo n sts r env s) (evalBlockStatement fo (Suc n) sts r env s))
    \<and> (\<forall>es r env s. fuel_le (evalExpressions fo n es r env s) (evalExpressions fo (Suc n) es r env s))
    \<and> (\<forall>c b a env s. fuel_le (evalIfExpression fo n c b a env s) (evalIfExpression fo (Suc n) c b a env s))
    \<and> (\<forall>tok fn args s. fuel_le (applyFunction fo n tok fn args s) (applyFunction fo (Suc n) tok fn args s)))"

lemma fuel_mono_step:
  assumes "fuel_mono_at fo n"
  shows "fuel_mono_at fo (Suc n)"
proof -
  have ih_e: "fuel_le (eval_expression fo n e env s) (eval_expression fo (Suc n) e env s)" for e env s
    using assms by (simp add: fuel_mono_at_def)
  have ih_s: "fuel_le (eval_statement fo n st env s) (eval_statement fo (Suc n) st env s)" for st env s
    using assms by (simp add: fuel_mono_at_def)
  have ih_p: "fuel_le (evalProgram fo n sts r env s) (evalProgram fo (Suc n) sts r env s)" for sts r env s
    using assms by (simp add: fuel_mono_at_def)
  have ih_b: "fuel_le (evalBlockStatement fo n sts r env s) (evalBlockStatement fo (Suc n) sts r env s)" for sts r env s
    using assms by (simp add: fuel_mono_at_def)
  have ih_es: "fuel_le (evalExpressions fo n es r env s) (evalExpressions fo (Suc n) es r env s)" for es r env s
    using assms by (simp add: fuel_mono_at_def)
  have ih_if: "fuel_le (evalIfExpression fo n c b a env s) (evalIfExpression fo (Suc n) c b a env s)" for c b a env s
    using assms by (simp add: fuel_mono_at_def)
  have ih_ap: "fuel_le (applyFunction fo n tok fn args s) (applyFunction fo (Suc n) tok fn args s)" for tok fn args s
    using assms by (simp add: fuel_mono_at_def)
  note ih = ih_e ih_s ih_p ih_b ih_es ih_if ih_ap
  have e: "fuel_le (eval_expression fo (Suc n) e env s) (eval_expression fo (Suc (Suc n)) e env s)" for e env s
    by (cases e)
       (auto intro!: fuel_le_bind ih evalIdentifier_mono split: prod.split simp del: applyFunction.simps)
  have st: "fuel_le (eval_statement fo (Suc n) st env s) (eval_statement fo (Suc (Suc n)) st env s)" for st env s
    by (cases st)
       (auto intro!: fuel_le_bind ih split: prod.split)
  have p: "fuel_le (evalProgram fo (Suc n) sts r env s) (evalProgram fo (Suc (Suc n)) sts r env s)" for sts r env s
    by (cases sts)
       (auto intro!: fuel_le_bind ih split: prod.split object.split)
  have b: "fuel_le (evalBlockStatement fo (Suc n) sts r env s) (evalBlockStatement fo (Suc (Suc n)) sts r env s)" for sts r env s
    by (cases sts)
       (auto intro!: fuel_le_bind ih split: prod.split)
  have es: "fuel_le (evalExpressions fo (Suc n) es r env s) (evalExpressions fo (Suc (Suc n)) es r env s)" for es r env s
    by (cases es)
       (auto intro!: fuel_le_bind ih split: prod.split)
  have i: "fuel_le (evalIfExpression fo (Suc n) c b a env s) (evalIfExpression fo (Suc (Suc n)) c b a env s)" for c b a env s
    by (cases b)
       (auto intro!: fuel_le_bind ih split: prod.split option.split block.split)
  have ap: "fuel_le (applyFunction fo (Suc n) tok fn args s) (applyFunction fo (Suc (Suc n)) tok fn args s)" for tok fn args s
    by (auto intro!: fuel_le_bind ih callBuiltin_mono split: prod.split object.split block.split)
  show ?thesis
    unfolding fuel_mono_at_def using e st p b es i ap by blast
qed

lemma fuel_mono_all: "fuel_mono_at fo n"
proof (induction n)
  case 0
  show ?case by (simp add: fuel_mono_at_def)
next
  case (Suc n)
  then show ?case by (rule fuel_mono_step)
qed

lemma fuel_le_trans: "fuel_le a b \<Longrightarrow> fuel_le b c \<Longrightarrow> fuel_le a c"
  by (auto simp: fuel_le_def)

lemma env_get_fuel: "fuel_le (env_get n s e name) (env_get (n + k) s e name)"
proof (induction k)
  case 0
  show ?case by simp
next
  case (Suc k)
  then show ?case
    using env_get_mono [of "n + k" s e name] by (auto intro: fuel_le_trans)
qed

lemma eval_expression_fuel:
  "fuel_le (eval_expression fo n e env s) (eval_expression fo (n + k) e env s)"
proof (induction k)
  case 0
  show ?case by simp
next
  case (Suc k)
  have "fuel_le (eval_expression fo (n + k) e env s) (eval_expression fo (Suc (n + k)) e env s)"
    using fuel_mono_all [of fo "n + k"] by (simp add: fuel_mono_at_def)
  with Suc show ?case
    by (auto intro: fuel_le_trans)
qed

lemma eval_statement_fuel:
  "fuel_le (eval_statement fo n st env s) (eval_statement fo (n + k) st env s)"
proof (induction k)
  case 0
  show ?case by simp
next
  case (Suc k)
  have "fuel_le (eval_statement fo (n + k) st env s) (eval_statement fo (Suc (n + k)) st env s)"
    using fuel_mono_all [of fo "n + k"] by (simp add: fuel_mono_at_def)
  with Suc show ?case
    by (auto intro: fuel_le_trans)
qed

lemma evalProgram_fuel:
  "fuel_le (evalProgram fo n sts r env s) (evalProgram fo (n + k) sts r env s)"
proof (induction k)
  case 0
  show ?case by simp
next
  case (Suc k)
  have "fuel_le (evalProgram fo (n + k) sts r env s) (evalProgram fo (Suc (n + k)) sts r env s)"
    using fuel_mono_all [of fo "n + k"] by (simp add: fuel_mono_at_def)
  with Suc show ?case
    by (auto intro: fuel_le_trans)
qed

lemma evalBlockStatement_fuel:
  "fuel_le (evalBlockStatement fo n sts r env s) (evalBlockStatement fo (n + k) sts r env s)"
proof (induction k)
  case 0
  show ?case by simp
next
  case (Suc k)
  have "fuel_le (evalBlockStatement fo (n + k) sts r env s)
          (evalBlockStatement fo (Suc (n + k)) sts r env s)"
    using fuel_mono_all [of fo "n + k"] by (simp add: fuel_mono_at_def)
  with Suc show ?case
    by (auto intro: fuel_le_trans)
qed

lemma applyFunction_fuel:
  "fuel_le (applyFunction fo n tok fn args s) (applyFunction fo (n + k) tok fn args s)"
proof (induction k)
  case 0
  show ?case by simp
next
  case (Suc k)
  have "fuel_le (applyFunction fo (n + k) tok fn args s)
          (applyFunction fo (Suc (n + k)) tok fn args s)"
    using fuel_mono_all [of fo "n + k"] by (simp add: fuel_mono_at_def)
  with Suc show ?case
    by (auto intro: fuel_le_trans simp del: applyFunction.simps)
qed

lemma eval_statement_more_fuel:
  "eval_statement fo n st env s = Done x \<Longrightarrow> n \<le> m \<Longrightarrow> eval_statement fo m st env s = Done x"
  using eval_statement_fuel [of fo n st env s "m - n"] by (auto simp: fuel_le_def)

lemma eval_expression_more_fuel:
  "eval_expression fo n e env s = Done x \<Longrightarrow> n \<le> m \<Longrightarrow> eval_expression fo m e env s = Done x"
  using eval_expression_fuel [of fo n e env s "m - n"] by (auto simp: fuel_le_def)

lemma evalProgram_more_fuel:
  "evalProgram fo n sts r env s = Done x \<Longrightarrow> n \<le> m \<Longrightarrow> evalProgram fo m sts r env s = Done x"
  using evalProgram_fuel [of fo n sts r env s "m - n"] by (auto simp: fuel_le_def)

lemma evalBlockStatement_more_fuel:
  "evalBlockStatement fo n sts r env s = Done x \<Longrightarrow> n \<le> m
    \<Longrightarrow> evalBlockStatement fo m sts r env s = Done x"
  using evalBlockStatement_fuel [of fo n sts r env s "m - n"] by (auto simp: fuel_le_def)

lemma env_get_more_fuel:
  "env_get n s e name = Done x \<Longrightarrow> n \<le> m \<Longrightarrow> env_get m s e name = Done x"
  using env_get_fuel [of n s e name "m - n"] by (auto simp: fuel_le_def)

subsection \<open>Division by zero\<close>

text \<open>
  C10.  Integer division is unguarded: \<open>evalIntegerInfixExpr\<close> applied to two Integers
  and \<open>/\<close> with a zero divisor performs the host's division, which panics; no Error
  object is returned.  The branch is reached by the program \<open>1 / 0\<close>, in every
  environment and state, whatever the fuel beyond the four nested calls it needs.
\<close>

theorem integer_division_by_zero_panics:
  "evalIntegerInfixExpr tok (Integer a x) (Integer b 0) ''/'' s = Panic DivideByZero
   \<and> eval fo (n + 4)
        (Program [ExpressionStatement t0
           (InfixExpression t1 (IntegerLiteral t2 1) ''/'' (IntegerLiteral t3 0))]) env s
       = Panic DivideByZero"
proof -
  have fuel: "n + 4 = Suc (Suc (Suc (Suc n)))"
    by simp
  have "evalIntegerInfixExpr tok (Integer a x) (Integer b 0) ''/'' s = Panic DivideByZero"
    by (simp add: evalIntegerInfixExpr_def)
  moreover have "eval fo (n + 4)
        (Program [ExpressionStatement t0
           (InfixExpression t1 (IntegerLiteral t2 1) ''/'' (IntegerLiteral t3 0))]) env s
       = Panic DivideByZero"
    by (simp add: fuel alloc_def evalInfixExpr_def evalIntegerInfixExpr_def)
  ultimately show ?thesis
    by simp
qed

subsection \<open>Infix expressions on integers, and mismatched operand types\<close>

lemma evalInfixExpr_Integer:
  "evalInfixExpr fo tok (Integer p a) (Integer q b) operator s =
     (if operator = ''+'' then
        Done (Integer (next_addr s) (word_of_int (sint a + sint b)), s\<lparr>next_addr := Suc (next_addr s)\<rparr>)
      else if operator = ''-'' then
        Done (Integer (next_addr s) (word_of_int (sint a - sint b)), s\<lparr>next_addr := Suc (next_addr s)\<rparr>)
      else if operator = ''/'' then
        (if b = 0 then Panic DivideByZero
         else Done (Integer (next_addr s) (word_of_int (sint a sdiv sint b)),
                    s\<lparr>next_addr := Suc (next_addr s)\<rparr>))
      else if operator = ''*'' then
        Done (Integer (next_addr s) (word_of_int (sint a * sint b)), s\<lparr>next_addr := Suc (next_addr s)\<rparr>)
      else if operator = ''<'' then Done (nativeBoolToBoolObj (sint a < sint b), s)
      else if operator = ''<='' then Done (nativeBoolToBoolObj (sint a \<le> sint b), s)
      else if operator = ''>'' then Done (nativeBoolToBoolObj (sint a > sint b), s)
      else if operator = ''>='' then Done (nativeBoolToBoolObj (sint a \<ge> sint b), s)
      else if operator = ''!='' then Done (nativeBoolToBoolObj (sint a \<noteq> sint b), s)
      else if operator = ''=='' then Done (nativeBoolToBoolObj (sint a = sint b), s)
      else
        Done (Error (next_addr s)
               (''invalid operator found when evaluating infix expression {'' @
                string_of_int (sint a) @ '' '' @ operator @ '' '' @ string_of_int (sint b) @
                ''}. On line '' @ string_of_nat (line tok) @ '', column '' @
                string_of_nat (column tok) @ ''.''),
              s\<lparr>next_addr := Suc (next_addr s)\<rparr>))"
  by (simp add: evalInfixExpr_def evalIntegerInfixExpr_def evalOtherInfixOperators_int64_def
      alloc_def newError_def int64_quo_def word_sless_alt word_sle_eq word_eq_iff_signed [where ?'a = int])

lemma evalInfixExpr_mismatch:
  assumes "Type left = Done lt" and "Type right = Done rt" and "lt \<noteq> rt"
    and "operator \<noteq> ''==''" and "operator \<noteq> ''!=''"
  shows "evalInfixExpr fo tok left right operator s =
     Done (Error (next_addr s)
            (''mismatched types found when evaluating infix expression {'' @ lt @ '', '' @ rt @
             ''}. On line: '' @ string_of_nat (line tok) @ '', column: '' @
             string_of_nat (column tok)),
           s\<lparr>next_addr := Suc (next_addr s)\<rparr>)"
proof -
  have a: "andAlso (typeIs left t) (typeIs right t) = Done False" for t
    using assms(1-3) by (cases "lt = t") (auto simp: typeIs_def)
  show ?thesis
    using assms by (simp add: evalInfixExpr_def a newError_def alloc_def)
qed

text \<open>
  C3, amended.  For two Integer operands \<open>evalInfixExpr\<close> computes on the signed values
  \<open>sint a\<close> and \<open>sint b\<close>: \<open>+\<close>, \<open>-\<close> and \<open>*\<close> give the Integer holding the exact result
  wrapped to 64 bits (\<open>word_of_int\<close>); \<open>/\<close> with a divisor other than zero gives the
  quotient truncated towards zero (\<open>sdiv\<close>), and with divisor zero the host panics (no
  Integer is produced); \<open>< <= > >= == !=\<close> give the Boolean object of the comparison.
  For operands whose types differ and an operator other than \<open>==\<close> and \<open>!=\<close> the result is
  an Error naming both types: nothing is coerced.
\<close>

theorem infix_integers_and_mismatched_types:
  "evalInfixExpr fo tok (Integer p a) (Integer q b) operator s =
     (if operator = ''+'' then
        Done (Integer (next_addr s) (word_of_int (sint a + sint b)), s\<lparr>next_addr := Suc (next_addr s)\<rparr>)
      else if operator = ''-'' then
        Done (Integer (next_addr s) (word_of_int (sint a - sint b)), s\<lparr>next_addr := Suc (next_addr s)\<rparr>)
      else if operator = ''/'' then
        (if b = 0 then Panic DivideByZero
         else Done (Integer (next_addr s) (word_of_int (sint a sdiv sint b)),
                    s\<lparr>next_addr := Suc (next_addr s)\<rparr>))
      else if operator = ''*'' then
        Done (Integer (next_addr s) (word_of_int (sint a * sint b)), s\<lparr>next_addr := Suc (next_addr s)\<rparr>)
      else if operator = ''<'' then Done (nativeBoolToBoolObj (sint a < sint b), s)
      else if operator = ''<='' then Done (nativeBoolToBoolObj (sint a \<le> sint b), s)
      else if operator = ''>'' then Done (nativeBoolToBoolObj (sint a > sint b), s)
      else if operator = ''>='' then Done (nativeBoolToBoolObj (sint a \<ge> sint b), s)
      else if operator = ''!='' then Done (nativeBoolToBoolObj (sint a \<noteq> sint b), s)
      else if operator = ''=='' then Done (nativeBoolToBoolObj (sint a = sint b), s)
      else
        Done (Error (next_addr s)
               (''invalid operator found when evaluating infix expression {'' @
                string_of_int (sint a) @ '' '' @ operator @ '' '' @ string_of_int (sint b) @
                ''}. On line '' @ string_of_nat (line tok) @ '', column '' @
                string_of_nat (column tok) @ ''.''),
              s\<lparr>next_addr := Suc (next_addr s)\<rparr>))
   \<and> (\<forall>left right lt rt.
         Type left = Done lt \<and> Type right = Done rt \<and> lt \<noteq> rt
         \<and> operator \<noteq> ''=='' \<and> operator \<noteq> ''!='' \<longrightarrow>
         evalInfixExpr fo tok left right operator s =
           Done (Error (next_addr s)
                  (''mismatched types found when evaluating infix expression {'' @ lt @ '', '' @
                   rt @ ''}. On line: '' @ string_of_nat (line tok) @ '', column: '' @
                   string_of_nat (column tok)),
                 s\<lparr>next_addr := Suc (next_addr s)\<rparr>))"
  using evalInfixExpr_Integer [of fo tok p a q b operator s] evalInfixExpr_mismatch [of _ _ _ _ operator fo tok s]
  by blast

theorem infix_integers_and_mismatched_types_witness:
  "Type (Integer 10 1) = Done ''INTEGER'' \<and> Type (StringValue 11 ''x'') = Done ''STRING_OBJ''
   \<and> ''INTEGER'' \<noteq> ''STRING_OBJ'' \<and> ''+'' \<noteq> ''=='' \<and> ''+'' \<noteq> ''!=''
   \<and> evalInfixExpr example_float64_ops example_token (Integer 10 1) (StringValue 11 ''x'') ''+''
         (start_state\<lparr>next_addr := 12\<rparr>)
       = Done (Error 12
                ''mismatched types found when evaluating infix expression {INTEGER, STRING_OBJ}. On line: 1, column: 1'',
               start_state\<lparr>next_addr := 13\<rparr>)"
proof -
  have t: "Type (Integer 10 1) = Done ''INTEGER'' \<and> Type (StringValue 11 ''x'') = Done ''STRING_OBJ''
      \<and> ''INTEGER'' \<noteq> ''STRING_OBJ'' \<and> ''+'' \<noteq> ''=='' \<and> ''+'' \<noteq> ''!=''"
    by (simp add: object_type_defs)
  have "evalInfixExpr example_float64_ops example_token (Integer 10 1) (StringValue 11 ''x'') ''+''
         (start_state\<lparr>next_addr := 12\<rparr>)
       = Done (Error (next_addr (start_state\<lparr>next_addr := 12\<rparr>))
                  (''mismatched types found when evaluating infix expression {'' @ ''INTEGER'' @ '', '' @
                   ''STRING_OBJ'' @ ''}. On line: '' @ string_of_nat (line example_token) @ '', column: '' @
                   string_of_nat (column example_token)),
                 (start_state\<lparr>next_addr := 12\<rparr>)\<lparr>next_addr := Suc (next_addr (start_state\<lparr>next_addr := 12\<rparr>))\<rparr>)"
    using infix_integers_and_mismatched_types
      [of example_float64_ops example_token 0 0 0 0 "''+''" "start_state\<lparr>next_addr := 12\<rparr>"] t
    by blast
  then show ?thesis
    by (simp add: example_token_def string_of_nat.simps object_type_defs)
qed

theorem integer_division_counterexample:
  "evalInfixExpr example_float64_ops example_token (Integer 10 1) (Integer 11 0) ''/''
     (start_state\<lparr>next_addr := 12\<rparr>) = Panic DivideByZero"
  by (simp add: evalInfixExpr_def evalIntegerInfixExpr_def)

subsection \<open>Index expressions\<close>

lemma isError_iff: "isError x \<longleftrightarrow> (\<exists>a m. x = Error a m)"
  by (cases x) auto

lemma typeIs_of_Type: "Type x = Done t \<Longrightarrow> typeIs x t' = Done (t = t')"
  by (simp add: typeIs_def)

lemma Type_ARRAY: "Type x = Done ARRAY_OBJ \<longleftrightarrow> (\<exists>a es. x = Array a es)"
  by (cases x) (auto simp: object_type_defs)

text \<open>
  C4.  An index expression whose operands evaluate to \<open>left\<close> and \<open>index\<close>: for an Array
  and an Integer \<open>v\<close> the result is the element at \<open>v\<close> when \<open>0 \<le> v \<le> length - 1\<close> and
  \<open>null\<close> otherwise; when \<open>left\<close> is an object that is no Array, or \<open>left\<close> is an Array and
  \<open>index\<close> an object that is no Integer, the result is an Error.  (\<open>Type x = Done t\<close> says
  that \<open>x\<close> is an object, of type \<open>t\<close>.)
\<close>

theorem index_expression_semantics:
  assumes "eval_expression fo n l env s = Done (left, s1)"
      and "eval_expression fo n i env s1 = Done (index, s2)"
  shows "(\<forall>p es q v. left = Array p es \<and> index = Integer q v \<longrightarrow>
            eval_expression fo (Suc n) (IndexExpression tok l i) env s =
              Done (if 0 \<le> sint v \<and> sint v \<le> int (length es) - 1 then es ! nat (sint v)
                    else NullObject, s2))
       \<and> (\<forall>lt. Type left = Done lt \<and> lt \<noteq> ARRAY_OBJ \<longrightarrow>
            (\<exists>a m s'. eval_expression fo (Suc n) (IndexExpression tok l i) env s
                        = Done (Error a m, s')))
       \<and> (\<forall>it. Type left = Done ARRAY_OBJ \<and> Type index = Done it \<and> it \<noteq> INTEGER_OBJ \<longrightarrow>
            (\<exists>a m s'. eval_expression fo (Suc n) (IndexExpression tok l i) env s
                        = Done (Error a m, s')))"
proof (intro conjI allI impI)
  fix p es q v
  assume "left = Array p es \<and> index = Integer q v"
  then show "eval_expression fo (Suc n) (IndexExpression tok l i) env s =
      Done (if 0 \<le> sint v \<and> sint v \<le> int (length es) - 1 then es ! nat (sint v)
            else NullObject, s2)"
    using assms by (auto simp: evalIndexExpression_def evalArrayIndexExpression_def)
next
  fix lt
  assume a: "Type left = Done lt \<and> lt \<noteq> ARRAY_OBJ"
  show "\<exists>a m s'. eval_expression fo (Suc n) (IndexExpression tok l i) env s = Done (Error a m, s')"
  proof (cases "isError left \<or> isError index")
    case True
    then show ?thesis
      using assms by (auto simp: isError_iff)
  next
    case False
    then show ?thesis
      using assms a
      by (simp add: evalIndexExpression_def typeIs_of_Type newError_def alloc_def)
  qed
next
  fix it
  assume a: "Type left = Done ARRAY_OBJ \<and> Type index = Done it \<and> it \<noteq> INTEGER_OBJ"
  then have l: "\<not> isError left"
    by (auto simp: Type_ARRAY)
  show "\<exists>a m s'. eval_expression fo (Suc n) (IndexExpression tok l i) env s = Done (Error a m, s')"
  proof (cases "isError index")
    case True
    then show ?thesis
      using assms l by (auto simp: isError_iff)
  next
    case False
    then show ?thesis
      using assms a l
      by (simp add: evalIndexExpression_def typeIs_of_Type newError_def alloc_def)
  qed
qed

theorem index_expression_semantics_witness:
  "eval_expression example_float64_ops 5 example_array 0 start_state
     = Done (Array 12 [Integer 10 7, Integer 11 8], start_state\<lparr>next_addr := 13\<rparr>)
   \<and> eval_expression example_float64_ops 5 (IntegerLiteral example_token 1) 0
         (start_state\<lparr>next_addr := 13\<rparr>)
     = Done (Integer 13 1, start_state\<lparr>next_addr := 14\<rparr>)
   \<and> eval_expression example_float64_ops (Suc 5)
         (IndexExpression example_token example_array (IntegerLiteral example_token 1)) 0 start_state
     = Done (Integer 11 8, start_state\<lparr>next_addr := 14\<rparr>)"
proof -
  have l: "eval_expression example_float64_ops 5 example_array 0 start_state
     = Done (Array 12 [Integer 10 7, Integer 11 8], start_state\<lparr>next_addr := 13\<rparr>)"
    by (simp add: eval_nat_numeral example_array_def alloc_def start_state_def)
  have i: "eval_expression example_float64_ops 5 (IntegerLiteral example_token 1) 0
         (start_state\<lparr>next_addr := 13\<rparr>)
     = Done (Integer 13 1, start_state\<lparr>next_addr := 14\<rparr>)"
    by (simp add: eval_nat_numeral alloc_def start_state_def)
  have "eval_expression example_float64_ops (Suc 5)
         (IndexExpression example_token example_array (IntegerLiteral example_token 1)) 0 start_state
     = Done (if 0 \<le> sint (1::int64) \<and> sint (1::int64) \<le> int (length [Integer 10 7, Integer 11 8]) - 1
             then [Integer 10 7, Integer 11 8] ! nat (sint (1::int64))
             else NullObject, start_state\<lparr>next_addr := 14\<rparr>)"
    using index_expression_semantics [OF l i, of example_token] by blast
  then show ?thesis
    using l i by simp
qed

subsection \<open>Applying a function to too many or too few arguments\<close>

lemma bindParameters_enough:
  "env < length (envs s) \<Longrightarrow> idx + length params \<le> length args \<Longrightarrow>
   bindParameters params idx args env s =
     Done (s\<lparr>envs := (envs s)[env := (envs s ! env)
             \<lparr>store := (store (envs s ! env))(map id_value params [\<mapsto>] drop idx args)\<rparr>]\<rparr>)"
proof (induction params arbitrary: idx s)
  case Nil
  then show ?case by simp
next
  case (Cons param params)
  then have i: "idx < length args" by simp
  have d: "drop idx args = args ! idx # drop (Suc idx) args"
    using i by (simp add: Cons_nth_drop_Suc)
  show ?case
    using Cons.prems i by (simp add: env_set_def Cons.IH d fun_upd_def)
qed

lemma bindParameters_short:
  "env < length (envs s) \<Longrightarrow> idx \<le> length args \<Longrightarrow> length args < idx + length params \<Longrightarrow>
   bindParameters params idx args env s = Panic IndexOutOfRange"
proof (induction params arbitrary: idx s)
  case Nil
  then show ?case by simp
next
  case (Cons param params)
  show ?case
  proof (cases "idx < length args")
    case True
    then show ?thesis
      using Cons.prems by (simp add: env_set_def Cons.IH)
  next
    case False
    then show ?thesis by simp
  qed
qed

lemma extendFunctionEnv_Function:
  "extendFunctionEnv (Function a params body fenv) args s =
     (if length params \<le> length args then
        Done (length (envs s),
              s\<lparr>envs := envs s @ [\<lparr>store = Map.empty(map id_value params [\<mapsto>] args),
                                    outer = Some fenv\<rparr>]\<rparr>)
      else Panic IndexOutOfRange)"
  by (simp add: extendFunctionEnv_def newEnclosedEnvironment_def bindParameters_enough
      bindParameters_short)

lemma zip_take_length: "zip xs (take (length xs) ys) = zip xs ys"
proof (induction xs arbitrary: ys)
  case Nil
  show ?case by simp
next
  case (Cons x xs)
  then show ?case by (cases ys) auto
qed

lemma map_upds_take: "length xs = n \<Longrightarrow> m(xs [\<mapsto>] take n ys) = m(xs [\<mapsto>] ys)"
  by (auto simp: map_upds_def zip_take_length)

text \<open>
  C9.  \<open>extendFunctionEnv\<close> for a function with parameters \<open>params\<close> applied to \<open>args\<close>:
  with at least as many arguments as parameters it returns a new environment (the next
  index of \<open>envs\<close>) whose outer environment is the one the function captured and whose
  store binds the parameters to the arguments position by position (\<open>[\<mapsto>]\<close> pairs the
  two lists up to the shorter one, a later duplicate name winning).  Arguments beyond
  the parameters are ignored: the call equals the call with the first \<open>length params\<close>
  arguments.  With fewer arguments than parameters the access \<open>args[idx]\<close> is out of
  range and the call panics.
\<close>

theorem user_function_arity:
  "extendFunctionEnv (Function a params body fenv) args s =
     (if length params \<le> length args then
        Done (length (envs s),
              s\<lparr>envs := envs s @ [\<lparr>store = Map.empty(map id_value params [\<mapsto>] args),
                                    outer = Some fenv\<rparr>]\<rparr>)
      else Panic IndexOutOfRange)
   \<and> (length params \<le> length args \<longrightarrow>
        applyFunction fo n tok (Function a params body fenv) args s =
        applyFunction fo n tok (Function a params body fenv) (take (length params) args) s)
   \<and> (length args < length params \<longrightarrow>
        applyFunction fo (Suc n) tok (Function a params body fenv) args s = Panic IndexOutOfRange)"
proof (intro conjI impI)
  show "extendFunctionEnv (Function a params body fenv) args s =
     (if length params \<le> length args then
        Done (length (envs s),
              s\<lparr>envs := envs s @ [\<lparr>store = Map.empty(map id_value params [\<mapsto>] args),
                                    outer = Some fenv\<rparr>]\<rparr>)
      else Panic IndexOutOfRange)"
    by (rule extendFunctionEnv_Function)
next
  assume le: "length params \<le> length args"
  have "extendFunctionEnv (Function a params body fenv) (take (length params) args) s =
        extendFunctionEnv (Function a params body fenv) args s"
    using le by (simp add: extendFunctionEnv_Function map_upds_take)
  then show "applyFunction fo n tok (Function a params body fenv) args s =
        applyFunction fo n tok (Function a params body fenv) (take (length params) args) s"
    by (cases n; cases body) simp_all
next
  assume "length args < length params"
  then show "applyFunction fo (Suc n) tok (Function a params body fenv) args s = Panic IndexOutOfRange"
    by (cases body) (simp add: extendFunctionEnv_Function)
qed

theorem user_function_arity_witness:
  "length [Identifier example_token ''x''] \<le> length [Integer 10 1, Integer 11 2]
   \<and> applyFunction example_float64_ops 5 example_token
        (Function 12 [Identifier example_token ''x'']
           (BlockStatement example_token
              [ExpressionStatement example_token (Ident (Identifier example_token ''x''))]) 0)
        [Integer 10 1, Integer 11 2] (start_state\<lparr>next_addr := 13\<rparr>)
     = applyFunction example_float64_ops 5 example_token
        (Function 12 [Identifier example_token ''x'']
           (BlockStatement example_token
              [ExpressionStatement example_token (Ident (Identifier example_token ''x''))]) 0)
        [Integer 10 1] (start_state\<lparr>next_addr := 13\<rparr>)
   \<and> length ([] :: object list) < length [Identifier example_token ''x'']
   \<and> applyFunction example_float64_ops (Suc 4) example_token
        (Function 12 [Identifier example_token ''x'']
           (BlockStatement example_token
              [ExpressionStatement example_token (Ident (Identifier example_token ''x''))]) 0)
        [] (start_state\<lparr>next_addr := 13\<rparr>)
     = Panic IndexOutOfRange"
  using user_function_arity [of 12 "[Identifier example_token ''x'']"
      "BlockStatement example_token
         [ExpressionStatement example_token (Ident (Identifier example_token ''x''))]" 0
      "[Integer 10 1, Integer 11 2]" "start_state\<lparr>next_addr := 13\<rparr>"
      example_float64_ops 5 example_token]
    user_function_arity [of 12 "[Identifier example_token ''x'']"
      "BlockStatement example_token
         [ExpressionStatement example_token (Ident (Identifier example_token ''x''))]" 0
      "[]" "start_state\<lparr>next_addr := 13\<rparr>"
      example_float64_ops 4 example_token]
  by simp

end
